theory Spec2Isabelle
  imports Main "HOL-Library.Word" "HOL-Library.Multiset"
begin

section \<open>JavaScript values read by the handlers\<close>

text \<open>
  A JavaScript string is a sequence of UTF-16 code units; \<open>length\<close> counts code units,
  as \<^verbatim>\<open>String.prototype.length\<close> and the schema's \<^verbatim>\<open>maxlength\<close> do.
\<close>

type_synonym jsstring = "16 word list"

text \<open>Code units of an ASCII literal, for writing examples.\<close>

definition js :: "string \<Rightarrow> jsstring" where
  "js s = map (\<lambda>c. word_of_nat (of_char c)) s"

text \<open>
  \<^verbatim>\<open>String.prototype.trim\<close> removes WhiteSpace and LineTerminator code units
  (ECMAScript: TAB, LF, VT, FF, CR, SP, NBSP, the Unicode space separators, LS, PS, BOM)
  from both ends.
\<close>

definition isWhiteSpace :: "16 word \<Rightarrow> bool" where
  "isWhiteSpace c \<longleftrightarrow>
     c = 0x9 \<or> c = 0xA \<or> c = 0xB \<or> c = 0xC \<or> c = 0xD \<or> c = 0x20 \<or> c = 0xA0 \<or>
     c = 0x1680 \<or> (0x2000 \<le> c \<and> c \<le> 0x200A) \<or> c = 0x2028 \<or> c = 0x2029 \<or>
     c = 0x202F \<or> c = 0x205F \<or> c = 0x3000 \<or> c = 0xFEFF"

definition trim :: "jsstring \<Rightarrow> jsstring" where
  "trim s = rev (dropWhile isWhiteSpace (rev (dropWhile isWhiteSpace s)))"

text \<open>
  The values a parsed JSON body can hold, and \<open>JUndefined\<close> for a property that is
  absent. Numbers matter to the handlers only through their truthiness.
\<close>

datatype jsval =
    JUndefined
  | JNull
  | JBool bool
  | JNum int
  | JStr jsstring
  | JArr "jsval list"
  | JObj "(string \<times> jsval) list"

text \<open>\<^verbatim>\<open>!v\<close> is \<open>\<not> truthy v\<close>.\<close>

fun truthy :: "jsval \<Rightarrow> bool" where
  "truthy JUndefined = False"
| "truthy JNull = False"
| "truthy (JBool b) = b"
| "truthy (JNum n) = (n \<noteq> 0)"
| "truthy (JStr s) = (s \<noteq> [])"
| "truthy (JArr xs) = True"
| "truthy (JObj ps) = True"

section \<open>Errors caught by the handlers\<close>

text \<open>
  Every handler body is one \<^verbatim>\<open>try\<close> block; whatever is thrown inside it reaches the
  \<^verbatim>\<open>catch\<close> block as one of these values.
  \<^item> \<open>TypeError\<close>: a method call on a value that has no such method
    (\<^verbatim>\<open>title.trim()\<close> on a number, on \<^verbatim>\<open>null\<close>, ...); the payload names the call.
  \<^item> \<open>ValidationError\<close>: raised by the schema's validators, one (path, message) pair
    for each failing path, with the messages of \<^verbatim>\<open>TodoSchema\<close>.
  \<^item> \<open>MongoError\<close>: the store rejected or could not be reached.
\<close>

datatype js_error =
    TypeError string
  | ValidationError "(string \<times> string) list"
  | MongoError string

text \<open>\<^verbatim>\<open>v.trim()\<close> for a value \<open>v\<close> of unknown runtime type.\<close>

fun call_trim :: "string \<Rightarrow> jsval \<Rightarrow> js_error + jsstring" where
  "call_trim name (JStr s) = Inr (trim s)"
| "call_trim name v = Inl (TypeError (name @ ''.trim''))"

text \<open>\<^verbatim>\<open>description?.trim() || undefined\<close>; \<open>None\<close> is \<^verbatim>\<open>undefined\<close>.\<close>

fun trim_or_undefined :: "jsval \<Rightarrow> js_error + jsstring option" where
  "trim_or_undefined JUndefined = Inr None"
| "trim_or_undefined JNull = Inr None"
| "trim_or_undefined (JStr s) = Inr (if trim s = [] then None else Some (trim s))"
| "trim_or_undefined v = Inl (TypeError ''description.trim'')"

section \<open>The entity model (models/Todo.ts)\<close>

text \<open>
  \<^verbatim>\<open>ITodo\<close>: the document with its \<^verbatim>\<open>_id\<close> (field \<open>oid\<close>; the type of ObjectIds is
  a parameter) and the two timestamps in milliseconds. An unset \<^verbatim>\<open>description\<close> is
  \<open>None\<close>.
\<close>

record 'oid todo =
  oid :: 'oid
  title :: jsstring
  description :: "jsstring option"
  completed :: bool
  createdAt :: int
  updatedAt :: int

text \<open>
  The request body as the handlers destructure it: the object that \<^verbatim>\<open>express.json()\<close>
  parsed. \<open>body_title\<close> and
  \<open>body_description\<close> are of any runtime type, since the handlers call string methods
  on them; \<open>body_completed\<close> is only handed to the store and is taken at its declared
  type (\<^verbatim>\<open>UpdateTodoInput.completed?: boolean\<close>, \<open>None\<close> for an absent property);
  \<open>body_rest\<close> holds every other property of the body.
\<close>

record body =
  body_title :: jsval
  body_description :: jsval
  body_completed :: "bool option"
  body_rest :: "(string \<times> jsval) list"

text \<open>
  \<^verbatim>\<open>updateData: Partial<UpdateTodoInput>\<close>. The outer \<open>option\<close> says whether the key
  is present; a present \<open>upd_description\<close> may hold \<^verbatim>\<open>undefined\<close> (\<open>Some None\<close>).
\<close>

record updateData =
  upd_title :: "jsstring option"
  upd_description :: "jsstring option option"
  upd_completed :: "bool option"

text \<open>\<^verbatim>\<open>Object.keys(updateData)\<close>: a key whose value is \<^verbatim>\<open>undefined\<close> is still a key.\<close>

definition keys :: "updateData \<Rightarrow> string list" where
  "keys u =
     (if upd_title u \<noteq> None then [''title''] else []) @
     (if upd_description u \<noteq> None then [''description''] else []) @
     (if upd_completed u \<noteq> None then [''completed''] else [])"

text \<open>
  The validators of \<^verbatim>\<open>TodoSchema\<close>: \<^verbatim>\<open>required\<close> on a string path rejects the empty
  string, \<^verbatim>\<open>maxlength\<close> rejects a longer one; a path that is not set has only its
  \<^verbatim>\<open>required\<close> validator run.
\<close>

definition validate_title :: "jsstring \<Rightarrow> (string \<times> string) list" where
  "validate_title t =
     (if t = [] then [(''title'', ''Title is required'')]
      else if 100 < length t then [(''title'', ''Title cannot exceed 100 characters'')]
      else [])"

definition validate_description :: "jsstring option \<Rightarrow> (string \<times> string) list" where
  "validate_description d =
     (case d of
        None \<Rightarrow> []
      | Some x \<Rightarrow>
          if 500 < length x then [(''description'', ''Description cannot exceed 500 characters'')]
          else [])"

section \<open>The store and what a request depends on besides it\<close>

text \<open>
  The collection is the list of its documents in insertion order. \<open>calls\<close> is a ghost
  log of the model calls made so far, so that "no store operation" can be stated.
\<close>

datatype 'oid call =
    Find
  | FindById 'oid
  | Save
  | FindByIdAndUpdate 'oid updateData
  | FindByIdAndDelete 'oid

record 'oid store =
  docs :: "'oid todo list"
  calls :: "'oid call list"

text \<open>
  What the handlers take from Mongoose and from the environment of one request:
  \<^item> \<open>isValid\<close>: \<^verbatim>\<open>mongoose.Types.ObjectId.isValid\<close>, the syntactic check;
  \<^item> \<open>castId\<close>: the ObjectId a string that passed the check is cast to;
  \<^item> \<open>newId\<close>: the \<^verbatim>\<open>_id\<close> that \<^verbatim>\<open>new Todo(...)\<close> generates;
  \<^item> \<open>now\<close>: the clock reading the timestamps plugin uses;
  \<^item> \<open>fault\<close>: \<open>Some m\<close> when the store call of this request rejects with message \<open>m\<close>
    (connection lost, server fault).
\<close>

record 'oid env =
  isValid :: "jsstring \<Rightarrow> bool"
  castId :: "jsstring \<Rightarrow> 'oid"
  newId :: 'oid
  now :: int
  fault :: "string option"

definition logged :: "'oid call \<Rightarrow> 'oid store \<Rightarrow> 'oid store" where
  "logged c s = s\<lparr>calls := calls s @ [c]\<rparr>"

section \<open>The model calls the handlers make\<close>

text \<open>
  Each call returns what the awaited promise settles to (\<open>Inl\<close>: it rejects and the
  handler's \<^verbatim>\<open>catch\<close> block runs) and the store afterwards. Validation runs in the
  application before anything is sent, so a \<open>ValidationError\<close> comes before a \<open>fault\<close>.
\<close>

text \<open>
  \<^verbatim>\<open>Todo.find().sort({ createdAt: -1 })\<close>: all documents, larger \<open>createdAt\<close> first.
  \<open>sort_key\<close> is stable, so documents with equal \<open>createdAt\<close> keep their insertion
  order.
\<close>

definition find_sorted :: "'oid env \<Rightarrow> 'oid store \<Rightarrow> (js_error + 'oid todo list) \<times> 'oid store" where
  "find_sorted e s =
     (case fault e of
        Some m \<Rightarrow> (Inl (MongoError m), logged Find s)
      | None \<Rightarrow> (Inr (sort_key (\<lambda>d. - createdAt d) (docs s)), logged Find s))"

text \<open>\<^verbatim>\<open>Todo.findById(id)\<close>: the document with that \<^verbatim>\<open>_id\<close>, or \<^verbatim>\<open>null\<close>.\<close>

definition findById :: "'oid env \<Rightarrow> 'oid \<Rightarrow> 'oid store \<Rightarrow> (js_error + 'oid todo option) \<times> 'oid store" where
  "findById e i s =
     (case fault e of
        Some m \<Rightarrow> (Inl (MongoError m), logged (FindById i) s)
      | None \<Rightarrow> (Inr (find (\<lambda>d. oid d = i) (docs s)), logged (FindById i) s))"

text \<open>
  \<^verbatim>\<open>new Todo({ title, description })\<close>: the schema's \<^verbatim>\<open>trim\<close> setters run on both
  strings, \<^verbatim>\<open>completed\<close> takes its default, the \<^verbatim>\<open>_id\<close> is generated. The two
  timestamps are filled in by \<^verbatim>\<open>save()\<close>, both from one clock reading.
\<close>

definition new_Todo :: "'oid env \<Rightarrow> jsstring \<Rightarrow> jsstring option \<Rightarrow> 'oid todo" where
  "new_Todo e t d =
     \<lparr>oid = newId e, title = trim t, description = map_option trim d, completed = False,
      createdAt = now e, updatedAt = now e\<rparr>"

text \<open>
  \<^verbatim>\<open>newTodo.save()\<close>: validate, then insert. The collection's unique index on
  \<^verbatim>\<open>_id\<close> rejects a document whose \<^verbatim>\<open>_id\<close> is taken.
\<close>

definition save :: "'oid env \<Rightarrow> 'oid todo \<Rightarrow> 'oid store \<Rightarrow> (js_error + 'oid todo) \<times> 'oid store" where
  "save e doc s =
     (let errs = validate_title (title doc) @ validate_description (description doc) in
      if errs \<noteq> [] then (Inl (ValidationError errs), logged Save s)
      else
        (case fault e of
           Some m \<Rightarrow> (Inl (MongoError m), logged Save s)
         | None \<Rightarrow>
             if oid doc \<in> set (map oid (docs s))
             then (Inl (MongoError ''E11000 duplicate key error''), logged Save s)
             else (Inr doc, logged Save (s\<lparr>docs := docs s @ [doc]\<rparr>))))"

text \<open>
  \<^verbatim>\<open>Todo.findByIdAndUpdate(id, updateData, { new: true, runValidators: true })\<close>.
  Mongoose (6 and later) removes the keys of an update whose value is
  \<^verbatim>\<open>undefined\<close>; the keys left are cast through the schema's setters and \<^verbatim>\<open>$set\<close>,
  and the timestamps plugin adds \<^verbatim>\<open>updatedAt\<close>. \<open>apply_update\<close> is that \<^verbatim>\<open>$set\<close> on
  one document.
\<close>

definition apply_update :: "int \<Rightarrow> updateData \<Rightarrow> 'oid todo \<Rightarrow> 'oid todo" where
  "apply_update t u d =
     d\<lparr>title := (case upd_title u of None \<Rightarrow> title d | Some x \<Rightarrow> trim x),
       description := (case upd_description u of
                         Some (Some x) \<Rightarrow> Some (trim x)
                       | _ \<Rightarrow> description d),
       completed := (case upd_completed u of None \<Rightarrow> completed d | Some c \<Rightarrow> c),
       updatedAt := t\<rparr>"

text \<open>The update validators run on the paths that are \<^verbatim>\<open>$set\<close>.\<close>

definition validate_update :: "updateData \<Rightarrow> (string \<times> string) list" where
  "validate_update u =
     (case upd_title u of None \<Rightarrow> [] | Some x \<Rightarrow> validate_title (trim x)) @
     (case upd_description u of
        Some (Some x) \<Rightarrow> validate_description (Some (trim x))
      | _ \<Rightarrow> [])"

text \<open>Replace, or remove, the first document with the given \<^verbatim>\<open>_id\<close>.\<close>

fun replace_doc :: "'oid \<Rightarrow> 'oid todo \<Rightarrow> 'oid todo list \<Rightarrow> 'oid todo list" where
  "replace_doc i d' [] = []"
| "replace_doc i d' (d # ds) = (if oid d = i then d' # ds else d # replace_doc i d' ds)"

fun remove_doc :: "'oid \<Rightarrow> 'oid todo list \<Rightarrow> 'oid todo list" where
  "remove_doc i [] = []"
| "remove_doc i (d # ds) = (if oid d = i then ds else d # remove_doc i ds)"

definition findByIdAndUpdate ::
  "'oid env \<Rightarrow> 'oid \<Rightarrow> updateData \<Rightarrow> 'oid store \<Rightarrow> (js_error + 'oid todo option) \<times> 'oid store" where
  "findByIdAndUpdate e i u s =
     (let s' = logged (FindByIdAndUpdate i u) s; errs = validate_update u in
      if errs \<noteq> [] then (Inl (ValidationError errs), s')
      else
        (case fault e of
           Some m \<Rightarrow> (Inl (MongoError m), s')
         | None \<Rightarrow>
             (case find (\<lambda>d. oid d = i) (docs s) of
                None \<Rightarrow> (Inr None, s')
              | Some d \<Rightarrow>
                  (Inr (Some (apply_update (now e) u d)),
                   s'\<lparr>docs := replace_doc i (apply_update (now e) u d) (docs s)\<rparr>))))"

text \<open>\<^verbatim>\<open>Todo.findByIdAndDelete(id)\<close>: removes the document and returns it, or \<^verbatim>\<open>null\<close>.\<close>

definition findByIdAndDelete ::
  "'oid env \<Rightarrow> 'oid \<Rightarrow> 'oid store \<Rightarrow> (js_error + 'oid todo option) \<times> 'oid store" where
  "findByIdAndDelete e i s =
     (let s' = logged (FindByIdAndDelete i) s in
      case fault e of
        Some m \<Rightarrow> (Inl (MongoError m), s')
      | None \<Rightarrow>
          (case find (\<lambda>d. oid d = i) (docs s) of
             None \<Rightarrow> (Inr None, s')
           | Some d \<Rightarrow> (Inr (Some d), s'\<lparr>docs := remove_doc i (docs s)\<rparr>)))"

section \<open>The response envelope\<close>

datatype 'oid payload = One "'oid todo" | Many "'oid todo list"

record 'oid response =
  status :: nat
  success :: bool
  message :: "string option"
  data :: "'oid payload option"
  count :: "nat option"
  error :: "js_error option"

text \<open>The envelopes the handlers build. \<open>error\<close> carries the caught error itself.\<close>

definition bad_request :: "string \<Rightarrow> 'oid response" where
  "bad_request m =
     \<lparr>status = 400, success = False, message = Some m, data = None, count = None, error = None\<rparr>"

definition not_found :: "'oid response" where
  "not_found =
     \<lparr>status = 404, success = False, message = Some ''Todo not found'', data = None,
      count = None, error = None\<rparr>"

definition server_error :: "string \<Rightarrow> js_error \<Rightarrow> 'oid response" where
  "server_error m err =
     \<lparr>status = 500, success = False, message = Some m, data = None, count = None,
      error = Some err\<rparr>"

definition ok_list :: "'oid todo list \<Rightarrow> 'oid response" where
  "ok_list todos =
     \<lparr>status = 200, success = True, message = None, data = Some (Many todos),
      count = Some (length todos), error = None\<rparr>"

definition ok_one :: "nat \<Rightarrow> string option \<Rightarrow> 'oid todo \<Rightarrow> 'oid response" where
  "ok_one st m d =
     \<lparr>status = st, success = True, message = m, data = Some (One d), count = None,
      error = None\<rparr>"

section \<open>The request handlers (routes/todos.ts)\<close>

text \<open>
  A handler takes the environment, the request and the store, and returns the response
  it sends and the store afterwards.
\<close>

text \<open>\<^verbatim>\<open>GET /api/todos\<close>\<close>

definition get_todos :: "'oid env \<Rightarrow> 'oid store \<Rightarrow> 'oid response \<times> 'oid store" where
  "get_todos e s =
     (case find_sorted e s of
        (Inl err, s') \<Rightarrow> (server_error ''Failed to fetch todos'' err, s')
      | (Inr todos, s') \<Rightarrow> (ok_list todos, s'))"

text \<open>\<^verbatim>\<open>GET /api/todos/:id\<close>\<close>

definition get_todo :: "'oid env \<Rightarrow> jsstring \<Rightarrow> 'oid store \<Rightarrow> 'oid response \<times> 'oid store" where
  "get_todo e ident s =
     (if \<not> isValid e ident then (bad_request ''Invalid todo ID format'', s)
      else
        (case findById e (castId e ident) s of
           (Inl err, s') \<Rightarrow> (server_error ''Failed to fetch todo'' err, s')
         | (Inr None, s') \<Rightarrow> (not_found, s')
         | (Inr (Some d), s') \<Rightarrow> (ok_one 200 None d, s')))"

text \<open>
  \<^verbatim>\<open>POST /api/todos\<close>. The condition \<^verbatim>\<open>!title || title.trim() === ''\<close> throws when
  \<^verbatim>\<open>title\<close> is truthy and not a string.
\<close>

definition post_todo :: "'oid env \<Rightarrow> body \<Rightarrow> 'oid store \<Rightarrow> 'oid response \<times> 'oid store" where
  "post_todo e b s =
     (if \<not> truthy (body_title b) then (bad_request ''Title is required'', s)
      else
        (case call_trim ''title'' (body_title b) of
           Inl err \<Rightarrow> (server_error ''Failed to create todo'' err, s)
         | Inr t \<Rightarrow>
             if t = [] then (bad_request ''Title is required'', s)
             else
               (case trim_or_undefined (body_description b) of
                  Inl err \<Rightarrow> (server_error ''Failed to create todo'' err, s)
                | Inr d \<Rightarrow>
                    (case save e (new_Todo e t d) s of
                       (Inl err, s') \<Rightarrow> (server_error ''Failed to create todo'' err, s')
                     | (Inr savedTodo, s') \<Rightarrow>
                         (ok_one 201 (Some ''Todo created successfully'') savedTodo, s')))))"

text \<open>
  \<^verbatim>\<open>PUT /api/todos/:id\<close>. \<open>build_update\<close> is the block that fills \<^verbatim>\<open>updateData\<close>,
  one \<^verbatim>\<open>if\<close> for each field, in the source's order.
\<close>

definition build_update :: "body \<Rightarrow> js_error + updateData" where
  "build_update b =
     (case (if body_title b \<noteq> JUndefined
            then map_sum (\<lambda>x. x) Some (call_trim ''title'' (body_title b))
            else Inr None) of
        Inl err \<Rightarrow> Inl err
      | Inr t \<Rightarrow>
          (case (if body_description b \<noteq> JUndefined
                 then map_sum (\<lambda>x. x) Some (trim_or_undefined (body_description b))
                 else Inr None) of
             Inl err \<Rightarrow> Inl err
           | Inr d \<Rightarrow>
               Inr \<lparr>upd_title = t, upd_description = d, upd_completed = body_completed b\<rparr>))"

definition put_todo ::
  "'oid env \<Rightarrow> jsstring \<Rightarrow> body \<Rightarrow> 'oid store \<Rightarrow> 'oid response \<times> 'oid store" where
  "put_todo e ident b s =
     (if \<not> isValid e ident then (bad_request ''Invalid todo ID format'', s)
      else
        (case build_update b of
           Inl err \<Rightarrow> (server_error ''Failed to update todo'' err, s)
         | Inr updateData \<Rightarrow>
             if length (keys updateData) = 0
             then (bad_request
                     ''At least one field (title, description, or completed) must be provided for update'',
                   s)
             else
               (case findByIdAndUpdate e (castId e ident) updateData s of
                  (Inl err, s') \<Rightarrow> (server_error ''Failed to update todo'' err, s')
                | (Inr None, s') \<Rightarrow> (not_found, s')
                | (Inr (Some d), s') \<Rightarrow>
                    (ok_one 200 (Some ''Todo updated successfully'') d, s'))))"

text \<open>\<^verbatim>\<open>DELETE /api/todos/:id\<close>\<close>

definition delete_todo :: "'oid env \<Rightarrow> jsstring \<Rightarrow> 'oid store \<Rightarrow> 'oid response \<times> 'oid store" where
  "delete_todo e ident s =
     (if \<not> isValid e ident then (bad_request ''Invalid todo ID format'', s)
      else
        (case findByIdAndDelete e (castId e ident) s of
           (Inl err, s') \<Rightarrow> (server_error ''Failed to delete todo'' err, s')
         | (Inr None, s') \<Rightarrow> (not_found, s')
         | (Inr (Some d), s') \<Rightarrow> (ok_one 200 (Some ''Todo deleted successfully'') d, s')))"

section \<open>Sample data\<close>

text \<open>
  An ObjectId format for the examples: 24 hexadecimal digits, compared as written.
\<close>

definition isHexDigit :: "16 word \<Rightarrow> bool" where
  "isHexDigit c \<longleftrightarrow>
     (0x30 \<le> c \<and> c \<le> 0x39) \<or> (0x41 \<le> c \<and> c \<le> 0x46) \<or> (0x61 \<le> c \<and> c \<le> 0x66)"

definition hex24 :: "jsstring \<Rightarrow> bool" where
  "hex24 s \<longleftrightarrow> length s = 24 \<and> list_all isHexDigit s"

definition env0 :: "jsstring env" where
  "env0 =
     \<lparr>isValid = hex24, castId = (\<lambda>x. x), newId = js ''65f000000000000000000003'', now = 3000,
      fault = None\<rparr>"

definition todo1 :: "jsstring todo" where
  "todo1 =
     \<lparr>oid = js ''65f000000000000000000001'', title = js ''Buy milk'',
      description = Some (js ''two litres''), completed = False, createdAt = 1000,
      updatedAt = 1000\<rparr>"

definition todo2 :: "jsstring todo" where
  "todo2 =
     \<lparr>oid = js ''65f000000000000000000002'', title = js ''Call Ana'', description = None,
      completed = True, createdAt = 2000, updatedAt = 2500\<rparr>"

definition store0 :: "jsstring store" where
  "store0 = \<lparr>docs = [todo1, todo2], calls = []\<rparr>"

definition empty_body :: body where
  "empty_body =
     \<lparr>body_title = JUndefined, body_description = JUndefined, body_completed = None,
      body_rest = []\<rparr>"

definition body_milk :: body where
  "body_milk =
     \<lparr>body_title = JStr (js '' Buy milk ''), body_description = JUndefined,
      body_completed = None, body_rest = []\<rparr>"

definition todo3 :: "jsstring todo" where
  "todo3 =
     \<lparr>oid = js ''65f000000000000000000003'', title = js ''Buy milk'', description = None,
      completed = False, createdAt = 3000, updatedAt = 3000\<rparr>"

definition body_title101 :: body where
  "body_title101 =
     \<lparr>body_title = JStr (replicate 101 0x61), body_description = JUndefined,
      body_completed = None, body_rest = []\<rparr>"


definition env_same_ms :: "jsstring env" where
  "env_same_ms = env0\<lparr>now := 1000\<rparr>"

definition body_done :: body where
  "body_done =
     \<lparr>body_title = JUndefined, body_description = JUndefined, body_completed = Some True,
      body_rest = []\<rparr>"

definition body_blank_description :: body where
  "body_blank_description =
     \<lparr>body_title = JUndefined, body_description = JStr (js ''   ''), body_completed = None,
      body_rest = []\<rparr>"


section \<open>Facts about the handlers' own checks\<close>

lemma calls_logged [simp]: "calls (logged c s) = calls s @ [c]"
  by (simp add: logged_def)

lemma docs_logged [simp]: "docs (logged c s) = docs s"
  by (simp add: logged_def)

lemma get_todo_invalid:
  "\<not> isValid e ident \<Longrightarrow> get_todo e ident s = (bad_request ''Invalid todo ID format'', s)"
  by (simp add: get_todo_def)

lemma put_todo_invalid:
  "\<not> isValid e ident \<Longrightarrow> put_todo e ident b s = (bad_request ''Invalid todo ID format'', s)"
  by (simp add: put_todo_def)

lemma delete_todo_invalid:
  "\<not> isValid e ident \<Longrightarrow> delete_todo e ident s = (bad_request ''Invalid todo ID format'', s)"
  by (simp add: delete_todo_def)

lemma post_todo_absent:
  "body_title b = JUndefined \<Longrightarrow> post_todo e b s = (bad_request ''Title is required'', s)"
  by (simp add: post_todo_def)

lemma post_todo_blank:
  "body_title b = JStr t \<Longrightarrow> trim t = [] \<Longrightarrow>
   post_todo e b s = (bad_request ''Title is required'', s)"
  by (simp add: post_todo_def)

lemma build_update_empty:
  "body_title b = JUndefined \<Longrightarrow> body_description b = JUndefined \<Longrightarrow>
   build_update b = Inr \<lparr>upd_title = None, upd_description = None, upd_completed = body_completed b\<rparr>"
  by (simp add: build_update_def)

lemma put_todo_no_fields:
  "isValid e ident \<Longrightarrow> body_title b = JUndefined \<Longrightarrow> body_description b = JUndefined \<Longrightarrow>
   body_completed b = None \<Longrightarrow>
   put_todo e ident b s =
     (bad_request
        ''At least one field (title, description, or completed) must be provided for update'', s)"
  by (simp add: put_todo_def build_update_empty keys_def)

lemma hex24_sample: "\<not> hex24 (js ''not-a-valid-id'')"
  by (simp add: hex24_def js_def)

lemma hex24_sample2: "hex24 (js ''65f000000000000000000001'')"
  by (simp add: hex24_def js_def isHexDigit_def)

section \<open>Malformed identifiers\<close>

text \<open>
  C1. When the path identifier fails the syntactic check \<open>isValid\<close>, each of the get,
  update and delete handlers answers 400 "Invalid todo ID format" and returns the store
  as it was, its call log included: no \<open>findById\<close>, \<open>findByIdAndUpdate\<close> or
  \<open>findByIdAndDelete\<close> is made.
\<close>

theorem invalid_id_short_circuits:
  assumes "\<not> isValid e ident"
  shows "get_todo e ident s =
           (\<lparr>status = 400, success = False, message = Some ''Invalid todo ID format'',
             data = None, count = None, error = None\<rparr>, s) \<and>
         put_todo e ident b s =
           (\<lparr>status = 400, success = False, message = Some ''Invalid todo ID format'',
             data = None, count = None, error = None\<rparr>, s) \<and>
         delete_todo e ident s =
           (\<lparr>status = 400, success = False, message = Some ''Invalid todo ID format'',
             data = None, count = None, error = None\<rparr>, s)"
  using assms
  by (simp add: get_todo_invalid put_todo_invalid delete_todo_invalid bad_request_def)

theorem invalid_id_short_circuits_witness:
  "\<not> isValid env0 (js ''not-a-valid-id'') \<and>
   get_todo env0 (js ''not-a-valid-id'') store0 =
     (\<lparr>status = 400, success = False, message = Some ''Invalid todo ID format'',
       data = None, count = None, error = None\<rparr>, store0) \<and>
   put_todo env0 (js ''not-a-valid-id'') (empty_body\<lparr>body_completed := Some True\<rparr>) store0 =
     (\<lparr>status = 400, success = False, message = Some ''Invalid todo ID format'',
       data = None, count = None, error = None\<rparr>, store0) \<and>
   delete_todo env0 (js ''not-a-valid-id'') store0 =
     (\<lparr>status = 400, success = False, message = Some ''Invalid todo ID format'',
       data = None, count = None, error = None\<rparr>, store0)"
proof -
  have h: "\<not> isValid env0 (js ''not-a-valid-id'')"
    by (simp add: env0_def hex24_sample)
  show ?thesis
    using h invalid_id_short_circuits [OF h, of store0 "empty_body\<lparr>body_completed := Some True\<rparr>"]
    by simp
qed

section \<open>Create without a title\<close>

lemma trim_blank_sample: "trim (js ''   '') = []"
  by (simp add: trim_def js_def isWhiteSpace_def)

text \<open>
  C4. A create request whose title is absent, or is a string that trims to the empty
  string, is answered 400 "Title is required"; the store is returned as it was, so no
  record is created and \<open>save\<close> is not called.
\<close>

theorem create_requires_title:
  assumes "body_title b = JUndefined \<or> (\<exists>t. body_title b = JStr t \<and> trim t = [])"
  shows "post_todo e b s =
           (\<lparr>status = 400, success = False, message = Some ''Title is required'',
             data = None, count = None, error = None\<rparr>, s)"
  using assms
  by (auto simp add: post_todo_absent post_todo_blank bad_request_def)

theorem create_requires_title_witness:
  "(body_title (empty_body\<lparr>body_title := JStr (js ''   '')\<rparr>) = JUndefined \<or>
    (\<exists>t. body_title (empty_body\<lparr>body_title := JStr (js ''   '')\<rparr>) = JStr t \<and> trim t = [])) \<and>
   post_todo env0 (empty_body\<lparr>body_title := JStr (js ''   '')\<rparr>) store0 =
     (\<lparr>status = 400, success = False, message = Some ''Title is required'',
       data = None, count = None, error = None\<rparr>, store0)"
proof -
  have h: "body_title (empty_body\<lparr>body_title := JStr (js ''   '')\<rparr>) = JUndefined \<or>
    (\<exists>t. body_title (empty_body\<lparr>body_title := JStr (js ''   '')\<rparr>) = JStr t \<and> trim t = [])"
    by (simp add: trim_blank_sample)
  show ?thesis
    using h create_requires_title [OF h, of env0 store0] by simp
qed

section \<open>Update with no field, and with a blank title only\<close>

text \<open>
  C5. An update with a well-formed identifier and a body that has none of \<open>title\<close>,
  \<open>description\<close>, \<open>completed\<close> is answered 400 "At least one field ..."; the store is
  returned as it was, its call log included.
\<close>

theorem update_empty_body_rejected:
  assumes "isValid e ident"
    and "body_title b = JUndefined"
    and "body_description b = JUndefined"
    and "body_completed b = None"
  shows "put_todo e ident b s =
           (\<lparr>status = 400, success = False,
             message = Some ''At least one field (title, description, or completed) must be provided for update'',
             data = None, count = None, error = None\<rparr>, s)"
  using assms by (simp add: put_todo_no_fields bad_request_def)

theorem update_empty_body_rejected_witness:
  "isValid env0 (js ''65f000000000000000000001'') \<and>
   body_title empty_body = JUndefined \<and> body_description empty_body = JUndefined \<and>
   body_completed empty_body = None \<and>
   put_todo env0 (js ''65f000000000000000000001'') empty_body store0 =
     (\<lparr>status = 400, success = False,
       message = Some ''At least one field (title, description, or completed) must be provided for update'',
       data = None, count = None, error = None\<rparr>, store0)"
proof -
  have h1: "isValid env0 (js ''65f000000000000000000001'')"
    by (simp add: env0_def hex24_sample2)
  have h2: "body_title empty_body = JUndefined" by (simp add: empty_body_def)
  have h3: "body_description empty_body = JUndefined" by (simp add: empty_body_def)
  have h4: "body_completed empty_body = None" by (simp add: empty_body_def)
  show ?thesis
    using h1 h2 h3 h4 update_empty_body_rejected [OF h1 h2 h3 h4, of store0] by simp
qed

lemma build_update_title_only:
  "body_title b = JStr t \<Longrightarrow> body_description b = JUndefined \<Longrightarrow>
   build_update b = Inr \<lparr>upd_title = Some (trim t), upd_description = None, upd_completed = body_completed b\<rparr>"
  by (simp add: build_update_def)

lemma findByIdAndUpdate_calls:
  "calls (snd (findByIdAndUpdate e i u s)) = calls s @ [FindByIdAndUpdate i u]"
  by (simp add: findByIdAndUpdate_def Let_def split: option.splits)

lemma message_put_after_store:
  "message (fst (case r of
       (Inl err, s') \<Rightarrow> (server_error ''Failed to update todo'' err, s')
     | (Inr None, s') \<Rightarrow> (not_found, s')
     | (Inr (Some d), s') \<Rightarrow> (ok_one 200 (Some ''Todo updated successfully'') d, s')))
   \<noteq> Some ''At least one field (title, description, or completed) must be provided for update''"
  by (simp add: server_error_def not_found_def ok_one_def split: prod.splits sum.splits option.splits)

text \<open>
  C6. The "at least one field" check counts the keys of \<open>updateData\<close> after the title
  has been trimmed, and a title that is present counts even when it is blank: for a
  body whose only field is a string title \<open>t\<close> (blank or not), \<open>updateData\<close> has the one
  key \<open>title\<close>, the response is not the "At least one field ..." rejection, and
  \<open>findByIdAndUpdate\<close> is called with the trimmed title.
\<close>

theorem update_blank_title_counts:
  assumes "isValid e ident"
    and "body_title b = JStr t"
    and "body_description b = JUndefined"
    and "body_completed b = None"
  shows "keys \<lparr>upd_title = Some (trim t), upd_description = None, upd_completed = None\<rparr> = [''title''] \<and>
         message (fst (put_todo e ident b s)) \<noteq>
           Some ''At least one field (title, description, or completed) must be provided for update'' \<and>
         calls (snd (put_todo e ident b s)) =
           calls s @ [FindByIdAndUpdate (castId e ident)
                        \<lparr>upd_title = Some (trim t), upd_description = None, upd_completed = None\<rparr>]"
proof -
  let ?u = "\<lparr>upd_title = Some (trim t), upd_description = None, upd_completed = None\<rparr>"
  have k: "keys ?u = [''title'']" by (simp add: keys_def)
  have p: "put_todo e ident b s =
     (case findByIdAndUpdate e (castId e ident) ?u s of
        (Inl err, s') \<Rightarrow> (server_error ''Failed to update todo'' err, s')
      | (Inr None, s') \<Rightarrow> (not_found, s')
      | (Inr (Some d), s') \<Rightarrow> (ok_one 200 (Some ''Todo updated successfully'') d, s'))"
    using assms by (simp add: put_todo_def build_update_title_only k)
  have c: "calls (snd (put_todo e ident b s)) = calls (snd (findByIdAndUpdate e (castId e ident) ?u s))"
    unfolding p by (simp split: prod.splits sum.splits option.splits)
  show ?thesis
    using k c by (simp add: p message_put_after_store findByIdAndUpdate_calls)
qed


theorem update_blank_title_counts_witness:
  "isValid env0 (js ''65f000000000000000000001'') \<and>
   body_title (empty_body\<lparr>body_title := JStr []\<rparr>) = JStr [] \<and>
   body_description (empty_body\<lparr>body_title := JStr []\<rparr>) = JUndefined \<and>
   body_completed (empty_body\<lparr>body_title := JStr []\<rparr>) = None \<and>
   message (fst (put_todo env0 (js ''65f000000000000000000001'')
                   (empty_body\<lparr>body_title := JStr []\<rparr>) store0)) \<noteq>
     Some ''At least one field (title, description, or completed) must be provided for update'' \<and>
   calls (snd (put_todo env0 (js ''65f000000000000000000001'')
                 (empty_body\<lparr>body_title := JStr []\<rparr>) store0)) =
     [FindByIdAndUpdate (js ''65f000000000000000000001'')
        \<lparr>upd_title = Some [], upd_description = None, upd_completed = None\<rparr>]"
proof -
  have h1: "isValid env0 (js ''65f000000000000000000001'')"
    by (simp add: env0_def hex24_sample2)
  have h2: "body_title (empty_body\<lparr>body_title := JStr []\<rparr>) = JStr []" by simp
  have h3: "body_description (empty_body\<lparr>body_title := JStr []\<rparr>) = JUndefined"
    by (simp add: empty_body_def)
  have h4: "body_completed (empty_body\<lparr>body_title := JStr []\<rparr>) = None"
    by (simp add: empty_body_def)
  have t: "trim [] = []" by (simp add: trim_def)
  have c: "calls store0 = []" by (simp add: store0_def)
  have i: "castId env0 (js ''65f000000000000000000001'') = js ''65f000000000000000000001''"
    by (simp add: env0_def)
  show ?thesis
    using h1 h2 h3 h4 update_blank_title_counts [OF h1 h2 h3 h4, of store0]
    by (simp only: t c i append_Nil simp_thms)
qed

section \<open>Listing\<close>

lemma newest_first_sort:
  "sorted_wrt (\<lambda>a b. createdAt b \<le> createdAt a) (sort_key (\<lambda>d. - createdAt d) xs)"
proof -
  have "sorted (map (\<lambda>d. - createdAt d) (sort_key (\<lambda>d. - createdAt d) xs))"
    by (rule sorted_sort_key)
  then show ?thesis by (simp add: sorted_map)
qed

lemma get_todos_sample:
  "get_todos env0 store0 =
     (\<lparr>status = 200, success = True, message = None, data = Some (Many [todo2, todo1]),
       count = Some 2, error = None\<rparr>, logged Find store0)"
  by (simp add: get_todos_def find_sorted_def ok_list_def env0_def store0_def todo1_def
      todo2_def sort_key_def)

text \<open>
  C9. Whatever the collection holds, when the store answers the list handler returns 200
  with \<open>data\<close> a rearrangement of all stored documents in which every document comes
  before those with a smaller \<open>createdAt\<close> (newest first), and \<open>count\<close> is the length of
  \<open>data\<close>. The collection itself is not changed.
\<close>

theorem list_newest_first:
  assumes "fault e = None"
  shows "\<exists>todos. get_todos e s =
           (\<lparr>status = 200, success = True, message = None, data = Some (Many todos),
             count = Some (length todos), error = None\<rparr>, logged Find s) \<and>
         mset todos = mset (docs s) \<and>
         sorted_wrt (\<lambda>a b. createdAt b \<le> createdAt a) todos"
  using assms
  by (simp add: get_todos_def find_sorted_def ok_list_def newest_first_sort)


theorem list_newest_first_witness:
  "fault env0 = None \<and>
   get_todos env0 store0 =
     (\<lparr>status = 200, success = True, message = None, data = Some (Many [todo2, todo1]),
       count = Some (length [todo2, todo1]), error = None\<rparr>, logged Find store0) \<and>
   mset [todo2, todo1] = mset (docs store0) \<and>
   sorted_wrt (\<lambda>a b. createdAt b \<le> createdAt a) [todo2, todo1]"
proof -
  have h: "fault env0 = None" by (simp add: env0_def)
  from list_newest_first [OF h, of store0] obtain todos where
    t: "get_todos env0 store0 =
          (\<lparr>status = 200, success = True, message = None, data = Some (Many todos),
            count = Some (length todos), error = None\<rparr>, logged Find store0)"
    and m: "mset todos = mset (docs store0)"
    and o: "sorted_wrt (\<lambda>a b. createdAt b \<le> createdAt a) todos"
    by blast
  from t have "todos = [todo2, todo1]" by (simp add: get_todos_sample)
  with h t m o show ?thesis by simp
qed

section \<open>Creating\<close>

text \<open>Trimming a trimmed string changes nothing, so the schema's setter keeps what the
  handler passes.\<close>

lemma last_dropWhile: "dropWhile P xs \<noteq> [] \<Longrightarrow> last (dropWhile P xs) = last xs"
  by (induction xs) (auto split: if_splits)

lemma dropWhile_rev_trim:
  "dropWhile P (rev (dropWhile P (rev (dropWhile P s)))) = rev (dropWhile P (rev (dropWhile P s)))"
proof -
  let ?a = "dropWhile P s"
  let ?c = "dropWhile P (rev ?a)"
  show ?thesis
  proof (cases "?c = []")
    case True
    then show ?thesis by (simp only: rev.simps dropWhile.simps)
  next
    case False
    then have "last ?c = last (rev ?a)" by (rule last_dropWhile)
    then have l: "last ?c = hd ?a" by (simp add: last_rev)
    from False have "rev ?a \<noteq> []" by (metis dropWhile.simps(1))
    then have "?a \<noteq> []" by (simp only: rev_is_Nil_conv not_False_eq_True)
    then have "\<not> P (hd ?a)" by (rule hd_dropWhile)
    with l have "\<not> P (hd (rev ?c))" by (simp add: hd_rev)
    then show ?thesis by (simp add: dropWhile_eq_self_iff)
  qed
qed

lemma trim_trim: "trim (trim s) = trim s"
  by (simp add: trim_def dropWhile_rev_trim)

lemma trim_Nil: "trim [] = []"
  by (simp add: trim_def)

lemma post_todo_valid_title:
  assumes "body_title b = JStr t" and "trim t \<noteq> []"
    and "trim_or_undefined (body_description b) = Inr d"
  shows "post_todo e b s =
     (case save e (new_Todo e (trim t) d) s of
        (Inl err, s') \<Rightarrow> (server_error ''Failed to create todo'' err, s')
      | (Inr savedTodo, s') \<Rightarrow>
          (ok_one 201 (Some ''Todo created successfully'') savedTodo, s'))"
proof -
  from assms(2) have "t \<noteq> []" using trim_Nil by auto
  with assms show ?thesis by (simp add: post_todo_def)
qed

lemma save_invalid:
  "validate_title (title doc) @ validate_description (description doc) \<noteq> [] \<Longrightarrow>
   save e doc s =
     (Inl (ValidationError (validate_title (title doc) @ validate_description (description doc))),
      logged Save s)"
  by (simp add: save_def Let_def)

lemma save_ok:
  "validate_title (title doc) = [] \<Longrightarrow> validate_description (description doc) = [] \<Longrightarrow>
   fault e = None \<Longrightarrow> oid doc \<notin> oid ` set (docs s) \<Longrightarrow>
   save e doc s = (Inr doc, logged Save (s\<lparr>docs := docs s @ [doc]\<rparr>))"
  by (simp add: save_def Let_def)

lemma save_Inr:
  "save e doc s = (Inr d, s') \<Longrightarrow> d = doc \<and> docs s' = docs s @ [doc]"
  by (auto simp add: save_def Let_def split: if_splits option.splits)

lemma post_todo_created:
  assumes "status (fst (post_todo e b s)) = 201"
  shows "\<exists>t d. body_title b = JStr t \<and> trim t \<noteq> [] \<and>
           trim_or_undefined (body_description b) = Inr d \<and>
           fst (post_todo e b s) =
             ok_one 201 (Some ''Todo created successfully'') (new_Todo e (trim t) d) \<and>
           docs (snd (post_todo e b s)) = docs s @ [new_Todo e (trim t) d]"
  using assms
  by (cases "body_title b")
     (auto simp add: post_todo_def bad_request_def server_error_def ok_one_def
       split: if_splits sum.splits prod.splits dest: save_Inr)

lemma new_Todo_sel [simp]:
  "oid (new_Todo e t d) = newId e"
  "title (new_Todo e t d) = trim t"
  "description (new_Todo e t d) = map_option trim d"
  "completed (new_Todo e t d) = False"
  "createdAt (new_Todo e t d) = now e"
  "updatedAt (new_Todo e t d) = now e"
  by (simp_all add: new_Todo_def)

lemma trim_milk: "trim (js '' Buy milk '') = js ''Buy milk''"
  by (simp add: trim_def js_def isWhiteSpace_def)

lemma trim_milk2: "trim (js ''Buy milk'') = js ''Buy milk''"
  by (simp add: trim_def js_def isWhiteSpace_def)

lemma post_milk:
  "post_todo env0 body_milk store0 =
     (\<lparr>status = 201, success = True, message = Some ''Todo created successfully'',
       data = Some (One todo3), count = None, error = None\<rparr>,
      \<lparr>docs = [todo1, todo2, todo3], calls = [Save]\<rparr>)"
proof -
  have t: "body_title body_milk = JStr (js '' Buy milk '')" by (simp add: body_milk_def)
  have "js ''Buy milk'' \<noteq> []" by (simp add: js_def)
  then have n: "trim (js '' Buy milk '') \<noteq> []" by (simp only: trim_milk not_False_eq_True)
  have d: "trim_or_undefined (body_description body_milk) = Inr None"
    by (simp add: body_milk_def)
  have doc: "new_Todo env0 (trim (js '' Buy milk '')) None = todo3"
    by (simp add: new_Todo_def trim_milk trim_milk2 env0_def todo3_def)
  have sv: "save env0 todo3 store0 = (Inr todo3, \<lparr>docs = [todo1, todo2, todo3], calls = [Save]\<rparr>)"
    by (simp add: save_def validate_title_def validate_description_def env0_def store0_def
        todo1_def todo2_def todo3_def logged_def js_def)
  show ?thesis
    by (simp add: post_todo_valid_title [OF t n d] doc sv ok_one_def)
qed

text \<open>
  C10. The create handler reads only \<open>title\<close> and \<open>description\<close>: changing
  \<open>completed\<close> or any other property of the body changes neither the response nor the
  store. When a record is created (201), its \<open>completed\<close> is \<open>False\<close>, its \<^verbatim>\<open>_id\<close> is
  the one generated for the new document and both timestamps are the clock reading of
  the save; none of them comes from the body.
\<close>

theorem create_ignores_other_fields:
  "post_todo e (b\<lparr>body_completed := c, body_rest := r\<rparr>) s = post_todo e b s \<and>
   (status (fst (post_todo e b s)) = 201 \<longrightarrow>
      (\<exists>d. data (fst (post_todo e b s)) = Some (One d) \<and>
           docs (snd (post_todo e b s)) = docs s @ [d] \<and>
           completed d = False \<and> oid d = newId e \<and>
           createdAt d = now e \<and> updatedAt d = now e))"
proof
  show "post_todo e (b\<lparr>body_completed := c, body_rest := r\<rparr>) s = post_todo e b s"
    by (simp add: post_todo_def split: sum.splits)
next
  show "status (fst (post_todo e b s)) = 201 \<longrightarrow>
      (\<exists>d. data (fst (post_todo e b s)) = Some (One d) \<and>
           docs (snd (post_todo e b s)) = docs s @ [d] \<and>
           completed d = False \<and> oid d = newId e \<and>
           createdAt d = now e \<and> updatedAt d = now e)"
  proof
    assume "status (fst (post_todo e b s)) = 201"
    then obtain t d where
      "fst (post_todo e b s) =
         ok_one 201 (Some ''Todo created successfully'') (new_Todo e (trim t) d)"
      and "docs (snd (post_todo e b s)) = docs s @ [new_Todo e (trim t) d]"
      using post_todo_created by blast
    then show "\<exists>d. data (fst (post_todo e b s)) = Some (One d) \<and>
           docs (snd (post_todo e b s)) = docs s @ [d] \<and>
           completed d = False \<and> oid d = newId e \<and>
           createdAt d = now e \<and> updatedAt d = now e"
      by (simp add: ok_one_def)
  qed
qed

theorem create_ignores_other_fields_witness:
  "post_todo env0
     (body_milk\<lparr>body_completed := Some True,
                body_rest := [(''id'', JStr (js ''65f000000000000000000001''))]\<rparr>) store0 =
     post_todo env0 body_milk store0 \<and>
   status (fst (post_todo env0 body_milk store0)) = 201 \<and>
   (\<exists>d. data (fst (post_todo env0 body_milk store0)) = Some (One d) \<and>
        docs (snd (post_todo env0 body_milk store0)) = docs store0 @ [d] \<and>
        completed d = False \<and> oid d = newId env0 \<and>
        createdAt d = now env0 \<and> updatedAt d = now env0)"
proof -
  have h: "status (fst (post_todo env0 body_milk store0)) = 201"
    by (simp add: post_milk)
  show ?thesis
    using h create_ignores_other_fields
      [where e = env0 and b = body_milk and c = "Some True"
         and r = "[(''id'', JStr (js ''65f000000000000000000001''))]" and s = store0]
    by blast
qed

lemma trim_or_undefined_trimmed:
  "trim_or_undefined v = Inr d \<Longrightarrow> map_option trim d = d"
  by (cases v) (auto simp add: trim_trim split: if_splits)

lemma post_todo_schema_reject:
  assumes "body_title b = JStr t" and "trim t \<noteq> []"
    and "trim_or_undefined (body_description b) = Inr d"
    and "validate_title (trim t) @ validate_description d \<noteq> []"
  shows "post_todo e b s =
     (server_error ''Failed to create todo''
        (ValidationError (validate_title (trim t) @ validate_description d)),
      logged Save s)"
proof -
  have d: "map_option trim d = d" using assms(3) by (rule trim_or_undefined_trimmed)
  have "save e (new_Todo e (trim t) d) s =
     (Inl (ValidationError (validate_title (trim t) @ validate_description d)), logged Save s)"
    using assms(4) save_invalid [of "new_Todo e (trim t) d" e s]
    by (simp add: d trim_trim)
  then show ?thesis
    by (simp add: post_todo_valid_title [OF assms(1) assms(2) assms(3)])
qed

lemma post_todo_schema_accept:
  assumes "body_title b = JStr t" and "trim t \<noteq> []"
    and "trim_or_undefined (body_description b) = Inr d"
    and "validate_title (trim t) = []" and "validate_description d = []"
    and "fault e = None" and "newId e \<notin> oid ` set (docs s)"
  shows "post_todo e b s =
     (ok_one 201 (Some ''Todo created successfully'') (new_Todo e (trim t) d),
      logged Save (s\<lparr>docs := docs s @ [new_Todo e (trim t) d]\<rparr>))"
proof -
  have d: "map_option trim d = d" using assms(3) by (rule trim_or_undefined_trimmed)
  have "save e (new_Todo e (trim t) d) s =
     (Inr (new_Todo e (trim t) d), logged Save (s\<lparr>docs := docs s @ [new_Todo e (trim t) d]\<rparr>))"
    using assms(4-7) by (intro save_ok) (simp_all add: d trim_trim)
  then show ?thesis
    by (simp add: post_todo_valid_title [OF assms(1) assms(2) assms(3)])
qed

lemma newId_env0_fresh: "newId env0 \<notin> oid ` set (docs store0)"
  by (simp add: env0_def store0_def todo1_def todo2_def js_def)

lemma trim_a101: "trim (replicate 101 (0x61 :: 16 word)) = replicate 101 0x61"
  by (simp add: trim_def isWhiteSpace_def)



text \<open>
  C3, as the code has it. A create request is answered 201 when its title is a string
  that is non-empty after trimming and at most 100 code units long once trimmed, its
  description is absent, \<^verbatim>\<open>null\<close> or a string of at most 500 code units once trimmed,
  and the store accepts the insert (it answers, and the generated \<^verbatim>\<open>_id\<close> is new). The
  record returned, which is the record stored, then has the trimmed title,
  \<open>completed = False\<close> and \<open>createdAt = updatedAt\<close>; its description is the trimmed
  string, and is unset when the description is absent or blank after trimming.
\<close>

theorem create_valid:
  assumes "body_title b = JStr t" and "trim t \<noteq> []" and "length (trim t) \<le> 100"
    and "body_description b = JUndefined \<or> body_description b = JNull \<or>
         (\<exists>x. body_description b = JStr x \<and> length (trim x) \<le> 500)"
    and "fault e = None" and "newId e \<notin> oid ` set (docs s)"
  shows "\<exists>d. post_todo e b s =
             (\<lparr>status = 201, success = True, message = Some ''Todo created successfully'',
               data = Some (One d), count = None, error = None\<rparr>,
              logged Save (s\<lparr>docs := docs s @ [d]\<rparr>)) \<and>
           title d = trim t \<and> completed d = False \<and> createdAt d = updatedAt d \<and>
           description d =
             (case body_description b of
                JStr x \<Rightarrow> if trim x = [] then None else Some (trim x)
              | _ \<Rightarrow> None)"
proof -
  let ?d = "case body_description b of
              JStr x \<Rightarrow> if trim x = [] then None else Some (trim x)
            | _ \<Rightarrow> None"
  have d: "trim_or_undefined (body_description b) = Inr ?d"
    using assms(4) by auto
  have vd: "validate_description ?d = []"
    using assms(4) by (auto simp add: validate_description_def)
  have vt: "validate_title (trim t) = []"
    using assms(2,3) by (simp add: validate_title_def)
  have m: "map_option trim ?d = ?d" using d by (rule trim_or_undefined_trimmed)
  have "post_todo e b s =
     (ok_one 201 (Some ''Todo created successfully'') (new_Todo e (trim t) ?d),
      logged Save (s\<lparr>docs := docs s @ [new_Todo e (trim t) ?d]\<rparr>))"
    using assms(1,2) d vt vd assms(5,6) by (rule post_todo_schema_accept)
  then show ?thesis
    by (intro exI [of _ "new_Todo e (trim t) ?d"]) (simp add: ok_one_def trim_trim m)
qed


theorem create_valid_witness:
  "body_title body_milk = JStr (js '' Buy milk '') \<and> trim (js '' Buy milk '') \<noteq> [] \<and>
   length (trim (js '' Buy milk '')) \<le> 100 \<and>
   (body_description body_milk = JUndefined \<or> body_description body_milk = JNull \<or>
    (\<exists>x. body_description body_milk = JStr x \<and> length (trim x) \<le> 500)) \<and>
   fault env0 = None \<and> newId env0 \<notin> oid ` set (docs store0) \<and>
   (\<exists>d. post_todo env0 body_milk store0 =
          (\<lparr>status = 201, success = True, message = Some ''Todo created successfully'',
            data = Some (One d), count = None, error = None\<rparr>,
           logged Save (store0\<lparr>docs := docs store0 @ [d]\<rparr>)) \<and>
        title d = js ''Buy milk'' \<and> completed d = False \<and> createdAt d = updatedAt d \<and>
        description d = None)"
proof -
  have h1: "body_title body_milk = JStr (js '' Buy milk '')" by (simp add: body_milk_def)
  have "js ''Buy milk'' \<noteq> []" by (simp add: js_def)
  then have h2: "trim (js '' Buy milk '') \<noteq> []" by (simp only: trim_milk not_False_eq_True)
  have h3: "length (trim (js '' Buy milk '')) \<le> 100" by (simp add: trim_milk) (simp add: js_def)
  have h4: "body_description body_milk = JUndefined \<or> body_description body_milk = JNull \<or>
    (\<exists>x. body_description body_milk = JStr x \<and> length (trim x) \<le> 500)"
    by (simp add: body_milk_def)
  have h5: "fault env0 = None" by (simp add: env0_def)
  have h6: "newId env0 \<notin> oid ` set (docs store0)" by (rule newId_env0_fresh)
  have d: "body_description body_milk = JUndefined" by (simp add: body_milk_def)
  show ?thesis
    using h1 h2 h3 h4 h5 h6 create_valid [OF h1 h2 h3 h4 h5 h6]
    by (simp add: trim_milk d)
qed

text \<open>
  A title that is non-empty after trimming is not enough for 201: a title of 101 letters
  fails the schema's \<^verbatim>\<open>maxlength\<close> at \<open>save\<close>, and the answer is 500.
\<close>

theorem create_long_title_counterexample:
  "body_title body_title101 = JStr (replicate 101 0x61) \<and>
   trim (replicate 101 (0x61 :: 16 word)) \<noteq> [] \<and>
   status (fst (post_todo env0 body_title101 store0)) = 500 \<and>
   status (fst (post_todo env0 body_title101 store0)) \<noteq> 201 \<and>
   docs (snd (post_todo env0 body_title101 store0)) = docs store0"
proof -
  have t: "body_title body_title101 = JStr (replicate 101 0x61)"
    by (simp add: body_title101_def)
  have n: "trim (replicate 101 (0x61 :: 16 word)) \<noteq> []" by (simp add: trim_a101)
  have d: "trim_or_undefined (body_description body_title101) = Inr None"
    by (simp add: body_title101_def)
  have v: "validate_title (trim (replicate 101 (0x61 :: 16 word))) @ validate_description None \<noteq> []"
    by (simp add: trim_a101 validate_title_def)
  show ?thesis
    using t n by (simp add: post_todo_schema_reject [OF t n d v] server_error_def)
qed

section \<open>Which failures are 400 and which are 500\<close>

lemma build_update_title_str:
  assumes "body_title b = JStr t"
    and "trim_or_undefined (body_description b) = Inr d"
  shows "build_update b =
     Inr \<lparr>upd_title = Some (trim t),
          upd_description = (if body_description b = JUndefined then None else Some d),
          upd_completed = body_completed b\<rparr>"
  using assms by (simp add: build_update_def)




















section \<open>Updating\<close>

lemma find_replace_doc:
  "find (\<lambda>x. oid x = i) ds = Some d \<Longrightarrow> oid d' = i \<Longrightarrow>
   find (\<lambda>x. oid x = i) (replace_doc i d' ds) = Some d'"
  by (induction ds) (auto split: if_splits)

lemma apply_update_sel [simp]:
  "oid (apply_update t u d) = oid d"
  "createdAt (apply_update t u d) = createdAt d"
  "updatedAt (apply_update t u d) = t"
  "title (apply_update t u d) = (case upd_title u of None \<Rightarrow> title d | Some x \<Rightarrow> trim x)"
  "description (apply_update t u d) =
     (case upd_description u of Some (Some x) \<Rightarrow> Some (trim x) | _ \<Rightarrow> description d)"
  "completed (apply_update t u d) = (case upd_completed u of None \<Rightarrow> completed d | Some c \<Rightarrow> c)"
  by (simp_all add: apply_update_def)

lemma findByIdAndUpdate_Some:
  assumes "findByIdAndUpdate e i u s = (Inr (Some d'), s')"
  shows "\<exists>d. find (\<lambda>x. oid x = i) (docs s) = Some d \<and> d' = apply_update (now e) u d \<and>
             docs s' = replace_doc i d' (docs s)"
  using assms
  by (auto simp add: findByIdAndUpdate_def Let_def split: if_splits option.splits)

lemma put_todo_ok:
  assumes "put_todo e ident b s = (r, s')" and "status r = 200"
  shows "\<exists>u d. build_update b = Inr u \<and>
           find (\<lambda>x. oid x = castId e ident) (docs s) = Some d \<and>
           r = ok_one 200 (Some ''Todo updated successfully'') (apply_update (now e) u d) \<and>
           docs s' = replace_doc (castId e ident) (apply_update (now e) u d) (docs s)"
  using assms
  by (auto simp add: put_todo_def bad_request_def server_error_def not_found_def
      split: if_splits sum.splits prod.splits option.splits dest!: findByIdAndUpdate_Some)

lemma build_update_fields:
  assumes "build_update b = Inr u"
  shows "upd_completed u = body_completed b"
    and "body_title b = JUndefined \<Longrightarrow> upd_title u = None"
    and "body_title b = JStr t \<Longrightarrow> upd_title u = Some (trim t)"
    and "body_description b = JUndefined \<Longrightarrow> upd_description u = None"
    and "body_description b = JStr x \<Longrightarrow>
         upd_description u = Some (if trim x = [] then None else Some (trim x))"
    and "body_description b = JNull \<Longrightarrow> upd_description u = Some None"
  using assms
  by (auto simp add: build_update_def split: if_splits sum.splits)


lemma find_todo1: "find (\<lambda>x. oid x = js ''65f000000000000000000001'') (docs store0) = Some todo1"
  by (simp add: store0_def todo1_def)

lemma put_todo_found:
  assumes "isValid e ident" and "build_update b = Inr u" and "keys u \<noteq> []"
    and "validate_update u = []" and "fault e = None"
    and "find (\<lambda>x. oid x = castId e ident) (docs s) = Some d"
  shows "put_todo e ident b s =
     (ok_one 200 (Some ''Todo updated successfully'') (apply_update (now e) u d),
      (logged (FindByIdAndUpdate (castId e ident) u) s)
        \<lparr>docs := replace_doc (castId e ident) (apply_update (now e) u d) (docs s)\<rparr>)"
  using assms by (simp add: put_todo_def findByIdAndUpdate_def Let_def)

lemma put_todo1_sample:
  assumes "build_update b = Inr u" and "keys u \<noteq> []" and "validate_update u = []"
  shows "put_todo (env0\<lparr>now := n\<rparr>) (js ''65f000000000000000000001'') b store0 =
     (\<lparr>status = 200, success = True, message = Some ''Todo updated successfully'',
       data = Some (One (apply_update n u todo1)), count = None, error = None\<rparr>,
      \<lparr>docs = [apply_update n u todo1, todo2],
       calls = [FindByIdAndUpdate (js ''65f000000000000000000001'') u]\<rparr>)"
proof -
  let ?e = "env0\<lparr>now := n\<rparr>"
  have v: "isValid ?e (js ''65f000000000000000000001'')"
    by (simp add: env0_def hex24_sample2)
  have fl: "fault ?e = None" by (simp add: env0_def)
  have c: "castId ?e (js ''65f000000000000000000001'') = js ''65f000000000000000000001''"
    by (simp add: env0_def)
  have f: "find (\<lambda>x. oid x = castId ?e (js ''65f000000000000000000001'')) (docs store0) = Some todo1"
    by (simp only: c find_todo1)
  have r: "replace_doc (js ''65f000000000000000000001'') (apply_update n u todo1) (docs store0) =
           [apply_update n u todo1, todo2]"
    by (simp add: store0_def todo1_def)
  have "put_todo ?e (js ''65f000000000000000000001'') b store0 =
     (ok_one 200 (Some ''Todo updated successfully'') (apply_update (now ?e) u todo1),
      (logged (FindByIdAndUpdate (castId ?e (js ''65f000000000000000000001'')) u) store0)
        \<lparr>docs := replace_doc (castId ?e (js ''65f000000000000000000001''))
                   (apply_update (now ?e) u todo1) (docs store0)\<rparr>)"
    using v assms fl f by (rule put_todo_found)
  then have "put_todo ?e (js ''65f000000000000000000001'') b store0 =
     (ok_one 200 (Some ''Todo updated successfully'') (apply_update n u todo1),
      (logged (FindByIdAndUpdate (js ''65f000000000000000000001'') u) store0)
        \<lparr>docs := [apply_update n u todo1, todo2]\<rparr>)"
    using c r by (simp add: env0_def)
  then show ?thesis
    by (simp add: ok_one_def logged_def store0_def)
qed

lemma env0_now: "env0 = env0\<lparr>now := 3000\<rparr>"
  by (simp add: env0_def)

lemma build_update_done:
  "build_update body_done =
     Inr \<lparr>upd_title = None, upd_description = None, upd_completed = Some True\<rparr>"
  by (simp add: build_update_def body_done_def)

lemma put_done_at:
  "put_todo (env0\<lparr>now := n\<rparr>) (js ''65f000000000000000000001'') body_done store0 =
     (\<lparr>status = 200, success = True, message = Some ''Todo updated successfully'',
       data = Some (One (todo1\<lparr>completed := True, updatedAt := n\<rparr>)), count = None,
       error = None\<rparr>,
      \<lparr>docs = [todo1\<lparr>completed := True, updatedAt := n\<rparr>, todo2],
       calls = [FindByIdAndUpdate (js ''65f000000000000000000001'')
                  \<lparr>upd_title = None, upd_description = None, upd_completed = Some True\<rparr>]\<rparr>)"
proof -
  let ?u = "\<lparr>upd_title = None, upd_description = None, upd_completed = Some True\<rparr>"
  have k: "keys ?u \<noteq> []" by (simp add: keys_def)
  have vu: "validate_update ?u = []" by (simp add: validate_update_def)
  have a: "apply_update n ?u todo1 = todo1\<lparr>completed := True, updatedAt := n\<rparr>"
    by (simp add: apply_update_def)
  show ?thesis
    using put_todo1_sample [OF build_update_done k vu, of n] by (simp only: a)
qed

lemma build_update_blank_description:
  "build_update body_blank_description =
     Inr \<lparr>upd_title = None, upd_description = Some None, upd_completed = None\<rparr>"
  by (simp add: build_update_def body_blank_description_def trim_blank_sample)

text \<open>
  C8, as the code has it. After a successful update (200) the record returned is the
  existing record with exactly this changed: a title, a non-blank description or a
  \<open>completed\<close> present in the body overwrites the field (strings trimmed), and
  \<open>updatedAt\<close> is set to the clock reading of the update. A field absent from the body
  keeps its value, and \<^verbatim>\<open>_id\<close> and \<open>createdAt\<close> are never changed; the collection holds
  the new record in place of the old one. So an update that provides only \<open>completed\<close>
  leaves title and description as they were, and \<open>updatedAt\<close> increases strictly
  whenever the clock reading is later than the record's previous \<open>updatedAt\<close>.
\<close>

theorem update_frame:
  assumes "put_todo e ident b s = (r, s')" and "status r = 200"
  shows "\<exists>d d'. find (\<lambda>x. oid x = castId e ident) (docs s) = Some d \<and>
           data r = Some (One d') \<and>
           docs s' = replace_doc (castId e ident) d' (docs s) \<and>
           find (\<lambda>x. oid x = castId e ident) (docs s') = Some d' \<and>
           oid d' = oid d \<and> createdAt d' = createdAt d \<and> updatedAt d' = now e \<and>
           (body_title b = JUndefined \<longrightarrow> title d' = title d) \<and>
           (body_description b = JUndefined \<longrightarrow> description d' = description d) \<and>
           (body_completed b = None \<longrightarrow> completed d' = completed d) \<and>
           (\<forall>t. body_title b = JStr t \<longrightarrow> title d' = trim t) \<and>
           (\<forall>x. body_description b = JStr x \<and> trim x \<noteq> [] \<longrightarrow> description d' = Some (trim x)) \<and>
           (\<forall>c. body_completed b = Some c \<longrightarrow> completed d' = c) \<and>
           (updatedAt d < now e \<longrightarrow> updatedAt d < updatedAt d')"
proof -
  from put_todo_ok [OF assms] obtain u d where
    bu: "build_update b = Inr u"
    and f: "find (\<lambda>x. oid x = castId e ident) (docs s) = Some d"
    and r: "r = ok_one 200 (Some ''Todo updated successfully'') (apply_update (now e) u d)"
    and ds: "docs s' = replace_doc (castId e ident) (apply_update (now e) u d) (docs s)"
    by blast
  let ?d' = "apply_update (now e) u d"
  have a1: "data r = Some (One ?d')" by (simp add: r ok_one_def)
  have a2: "oid ?d' = oid d" by simp
  have "oid d = castId e ident" using f by (auto simp add: find_Some_iff)
  then have a0: "find (\<lambda>x. oid x = castId e ident) (docs s') = Some ?d'"
    by (simp add: ds find_replace_doc [OF f])
  have a3: "createdAt ?d' = createdAt d" by simp
  have a4: "updatedAt ?d' = now e" by simp
  have a5: "body_title b = JUndefined \<longrightarrow> title ?d' = title d"
    by (simp add: build_update_fields(2) [OF bu])
  have a6: "body_description b = JUndefined \<longrightarrow> description ?d' = description d"
    by (simp add: build_update_fields(4) [OF bu])
  have a7: "body_completed b = None \<longrightarrow> completed ?d' = completed d"
    by (simp add: build_update_fields(1) [OF bu])
  have a8: "\<forall>t. body_title b = JStr t \<longrightarrow> title ?d' = trim t"
    by (simp add: build_update_fields(3) [OF bu] trim_trim)
  have a9: "\<forall>x. body_description b = JStr x \<and> trim x \<noteq> [] \<longrightarrow>
              description ?d' = Some (trim x)"
    by (simp add: build_update_fields(5) [OF bu] trim_trim)
  have a10: "\<forall>c. body_completed b = Some c \<longrightarrow> completed ?d' = c"
    by (simp add: build_update_fields(1) [OF bu])
  have a11: "updatedAt d < now e \<longrightarrow> updatedAt d < updatedAt ?d'"
    by simp
  show ?thesis
    by (intro exI [of _ d] exI [of _ ?d'] conjI)
       (rule f a1 ds a0 a2 a3 a4 a5 a6 a7 a8 a9 a10 a11)+
qed

theorem update_frame_witness:
  "put_todo env0 (js ''65f000000000000000000001'') body_done store0 =
     (\<lparr>status = 200, success = True, message = Some ''Todo updated successfully'',
       data = Some (One (todo1\<lparr>completed := True, updatedAt := 3000\<rparr>)), count = None,
       error = None\<rparr>,
      \<lparr>docs = [todo1\<lparr>completed := True, updatedAt := 3000\<rparr>, todo2],
       calls = [FindByIdAndUpdate (js ''65f000000000000000000001'')
                  \<lparr>upd_title = None, upd_description = None, upd_completed = Some True\<rparr>]\<rparr>) \<and>
   (\<exists>d d'. find (\<lambda>x. oid x = castId env0 (js ''65f000000000000000000001'')) (docs store0) = Some d \<and>
      Some (One (todo1\<lparr>completed := True, updatedAt := 3000\<rparr>)) = Some (One d') \<and>
      oid d' = oid d \<and> createdAt d' = createdAt d \<and> updatedAt d' = now env0 \<and>
      title d' = title d \<and> description d' = description d \<and> completed d' = True \<and>
      updatedAt d < updatedAt d')"
proof -
  have p: "put_todo env0 (js ''65f000000000000000000001'') body_done store0 =
     (\<lparr>status = 200, success = True, message = Some ''Todo updated successfully'',
       data = Some (One (todo1\<lparr>completed := True, updatedAt := 3000\<rparr>)), count = None,
       error = None\<rparr>,
      \<lparr>docs = [todo1\<lparr>completed := True, updatedAt := 3000\<rparr>, todo2],
       calls = [FindByIdAndUpdate (js ''65f000000000000000000001'')
                  \<lparr>upd_title = None, upd_description = None, upd_completed = Some True\<rparr>]\<rparr>)"
    using put_done_at [of 3000] by (simp only: env0_now [symmetric])
  have st: "status \<lparr>status = 200, success = True, message = Some ''Todo updated successfully'',
       data = Some (One (todo1\<lparr>completed := True, updatedAt := 3000\<rparr>)), count = None,
       error = None\<rparr> = 200" by simp
  have c: "castId env0 (js ''65f000000000000000000001'') = js ''65f000000000000000000001''"
    by (simp add: env0_def)
  have late: "updatedAt todo1 < now env0" by (simp add: todo1_def env0_def)
  from update_frame [OF p st] obtain d d' where
    "find (\<lambda>x. oid x = castId env0 (js ''65f000000000000000000001'')) (docs store0) = Some d"
    "Some (One (todo1\<lparr>completed := True, updatedAt := 3000\<rparr>)) = Some (One d')"
    "oid d' = oid d" "createdAt d' = createdAt d" "updatedAt d' = now env0"
    "body_title body_done = JUndefined \<longrightarrow> title d' = title d"
    "body_description body_done = JUndefined \<longrightarrow> description d' = description d"
    "\<forall>c. body_completed body_done = Some c \<longrightarrow> completed d' = c"
    "updatedAt d < now env0 \<longrightarrow> updatedAt d < updatedAt d'"
    by auto
  moreover from this(1) have "d = todo1" by (simp only: c find_todo1) simp
  ultimately have "find (\<lambda>x. oid x = castId env0 (js ''65f000000000000000000001'')) (docs store0) = Some d \<and>
      Some (One (todo1\<lparr>completed := True, updatedAt := 3000\<rparr>)) = Some (One d') \<and>
      oid d' = oid d \<and> createdAt d' = createdAt d \<and> updatedAt d' = now env0 \<and>
      title d' = title d \<and> description d' = description d \<and> completed d' = True \<and>
      updatedAt d < updatedAt d'"
    using late by (auto simp add: body_done_def)
  then show ?thesis using p by blast
qed

text \<open>
  \<open>updatedAt\<close> need not increase strictly: an update handled at the clock reading the
  record already carries (here the millisecond of its creation) leaves \<open>updatedAt\<close>
  equal.
\<close>

theorem update_same_ms_counterexample:
  "find (\<lambda>x. oid x = castId env_same_ms (js ''65f000000000000000000001'')) (docs store0) = Some todo1 \<and>
   body_title body_done = JUndefined \<and> body_description body_done = JUndefined \<and>
   body_completed body_done = Some True \<and>
   status (fst (put_todo env_same_ms (js ''65f000000000000000000001'') body_done store0)) = 200 \<and>
   data (fst (put_todo env_same_ms (js ''65f000000000000000000001'') body_done store0)) =
     Some (One (todo1\<lparr>completed := True, updatedAt := 1000\<rparr>)) \<and>
   \<not> updatedAt todo1 < updatedAt (todo1\<lparr>completed := True, updatedAt := 1000\<rparr>)"
proof -
  have c: "castId env_same_ms (js ''65f000000000000000000001'') = js ''65f000000000000000000001''"
    by (simp add: env_same_ms_def env0_def)
  have f: "find (\<lambda>x. oid x = castId env_same_ms (js ''65f000000000000000000001'')) (docs store0) = Some todo1"
    by (simp only: c find_todo1)
  have b: "body_title body_done = JUndefined \<and> body_description body_done = JUndefined \<and>
   body_completed body_done = Some True" by (simp add: body_done_def)
  have u: "\<not> updatedAt todo1 < updatedAt (todo1\<lparr>completed := True, updatedAt := 1000\<rparr>)"
    by (simp add: todo1_def)
  show ?thesis
    using f b u by (simp add: env_same_ms_def put_done_at)
qed

text \<open>
  C7, at a failing input. The record \<open>todo1\<close> has the description "two litres". An update
  whose only field is the description \<^verbatim>\<open>"   "\<close> puts the key \<open>description\<close> with
  the value \<^verbatim>\<open>undefined\<close> into \<open>updateData\<close>, which passes the "at least one field"
  check; the store drops that key, and the answer is 200 with the description still
  "two litres", not unset.
\<close>

theorem update_blank_description_keeps_old:
  "body_description body_blank_description = JStr (js ''   '') \<and> trim (js ''   '') = [] \<and>
   find (\<lambda>x. oid x = js ''65f000000000000000000001'') (docs store0) = Some todo1 \<and>
   description todo1 = Some (js ''two litres'') \<and>
   put_todo env0 (js ''65f000000000000000000001'') body_blank_description store0 =
     (\<lparr>status = 200, success = True, message = Some ''Todo updated successfully'',
       data = Some (One (todo1\<lparr>updatedAt := 3000\<rparr>)), count = None, error = None\<rparr>,
      \<lparr>docs = [todo1\<lparr>updatedAt := 3000\<rparr>, todo2],
       calls = [FindByIdAndUpdate (js ''65f000000000000000000001'')
                  \<lparr>upd_title = None, upd_description = Some None, upd_completed = None\<rparr>]\<rparr>) \<and>
   description (todo1\<lparr>updatedAt := 3000\<rparr>) = Some (js ''two litres'') \<and>
   description (todo1\<lparr>updatedAt := 3000\<rparr>) \<noteq> None"
proof -
  let ?u = "\<lparr>upd_title = None, upd_description = Some None, upd_completed = None\<rparr>"
  have k: "keys ?u \<noteq> []" by (simp add: keys_def)
  have vu: "validate_update ?u = []" by (simp add: validate_update_def)
  have a: "apply_update 3000 ?u todo1 = todo1\<lparr>updatedAt := 3000\<rparr>"
    by (simp add: apply_update_def)
  have p: "put_todo env0 (js ''65f000000000000000000001'') body_blank_description store0 =
     (\<lparr>status = 200, success = True, message = Some ''Todo updated successfully'',
       data = Some (One (todo1\<lparr>updatedAt := 3000\<rparr>)), count = None, error = None\<rparr>,
      \<lparr>docs = [todo1\<lparr>updatedAt := 3000\<rparr>, todo2],
       calls = [FindByIdAndUpdate (js ''65f000000000000000000001'') ?u]\<rparr>)"
    using put_todo1_sample [OF build_update_blank_description k vu, of 3000]
    by (simp only: a env0_now [symmetric])
  have d: "description todo1 = Some (js ''two litres'')" by (simp add: todo1_def)
  have b: "body_description body_blank_description = JStr (js ''   '')"
    by (simp add: body_blank_description_def)
  show ?thesis
    using p d b find_todo1 trim_blank_sample by simp
qed

end
